theory Spec2Isabelle
  imports Complex_Main "HOL-Library.Sublist"
begin

section \<open>The part of Go's package \<open>time\<close> that \<open>main.go\<close> calls\<close>

text \<open>
  \<open>main.go\<close> reads the wall clock with \<open>time.Now()\<close> and computes with \<open>time.Date\<close>,
  \<open>Time.AddDate\<close>, \<open>Time.UTC\<close>, \<open>Time.Year/Month/Day\<close> and \<open>time.Local\<close>. These belong to
  the Go standard library; they are modelled here after the library's implementation
  (\<open>time/time.go\<close>, \<open>time/zoneinfo.go\<close>), over unbounded integers: an instant is its number
  of seconds since the Unix epoch plus nanoseconds, together with the location it is read in.
  Go stores the seconds in an \<open>int64\<close>, which does not overflow for any year within 292 billion
  years of 1970. The monotonic clock reading of \<open>time.Now()\<close> is dropped by \<open>Date\<close>,
  \<open>AddDate\<close> and \<open>UTC\<close> and is left out.
\<close>

datatype Location = UTCLoc | LocalLoc

record Time =
  unixSec :: int
  nsec :: int
  loc :: Location

text \<open>
  A location's zone table, as \<open>Location.lookup\<close> reads it: for an instant in Unix seconds, the
  offset in seconds east of UTC in force at that instant, and the interval \<open>[start, end)\<close> of
  instants for which that zone is in force. The table of \<open>time.Local\<close> comes from the
  machine's time zone database and is a parameter of the model.
\<close>

type_synonym zone_table = "int \<Rightarrow> int \<times> int \<times> int"

definition lookup :: "zone_table \<Rightarrow> Location \<Rightarrow> int \<Rightarrow> int \<times> int \<times> int" where
  "lookup tz l sec =
     (case l of UTCLoc \<Rightarrow> (0, - (2 ^ 63), 2 ^ 63 - 1) | LocalLoc \<Rightarrow> tz sec)"

text \<open>\<open>norm\<close> of \<open>time.go\<close>: carries \<open>lo\<close> into \<open>hi\<close> so that \<open>0 \<le> lo < base\<close>.\<close>

definition norm_go :: "int \<Rightarrow> int \<Rightarrow> int \<Rightarrow> int \<times> int" where
  "norm_go hi lo base =
     (let (hi1, lo1) = (if lo < 0
                        then (let n = (- lo - 1) div base + 1 in (hi - n, lo + n * base))
                        else (hi, lo))
      in if lo1 \<ge> base
         then (let n = lo1 div base in (hi1 + n, lo1 - n * base))
         else (hi1, lo1))"

definition isLeap :: "int \<Rightarrow> bool" where
  "isLeap year = (year mod 4 = 0 \<and> (year mod 100 \<noteq> 0 \<or> year mod 400 = 0))"

text \<open>\<open>daysBefore[m]\<close>: the days of a non-leap year before month \<open>m + 1\<close>.\<close>

definition daysBefore :: "int \<Rightarrow> int" where
  "daysBefore m = [0, 31, 59, 90, 120, 151, 181, 212, 243, 273, 304, 334, 365] ! nat m"

text \<open>
  Go counts days from the first of January of a year that is 1 modulo 400; the model counts
  them from 0001-01-01, so that day 719162 is 1970-01-01. \<open>daysSinceEpoch year\<close> is the day
  number of the first of January of \<open>year\<close>, by 400-, 100-, 4- and 1-year cycles.
\<close>

definition daysSinceEpoch :: "int \<Rightarrow> int" where
  "daysSinceEpoch year =
     (let y = year - 1;
          n400 = y div 400; y1 = y - 400 * n400;
          n100 = y1 div 100; y2 = y1 - 100 * n100;
          n4 = y2 div 4; y3 = y2 - 4 * n4
      in 146097 * n400 + 36524 * n100 + 1461 * n4 + 365 * y3)"

definition unixEpochDay :: int where
  "unixEpochDay = 719162"

text \<open>The month and the day of the month from the day of the year (the tail of \<open>absDate\<close>).\<close>

definition monthDay :: "bool \<Rightarrow> int \<Rightarrow> int \<times> int" where
  "monthDay leap yday =
     (if leap \<and> yday = 31 + 29 - 1 then (2, 29)
      else (let day = (if leap \<and> yday > 31 + 29 - 1 then yday - 1 else yday);
                month = day div 31;
                end = daysBefore (month + 1);
                (month', begin) = (if day \<ge> end then (month + 1, end)
                                   else (month, daysBefore month))
            in (month' + 1, day - begin + 1)))"

text \<open>\<open>absDate\<close>: year, month and day of a day number. \<open>n - n div 4\<close> is Go's \<open>n -= n >> 2\<close>.\<close>

definition absDate :: "int \<Rightarrow> int \<times> int \<times> int" where
  "absDate days =
     (let d = days;
          n400 = d div 146097; d1 = d - 146097 * n400;
          n100 = d1 div 36524; n100' = n100 - n100 div 4; d2 = d1 - 36524 * n100';
          n4 = d2 div 1461; d3 = d2 - 1461 * n4;
          n1 = d3 div 365; n1' = n1 - n1 div 4; yday = d3 - 365 * n1';
          year = 400 * n400 + 100 * n100' + 4 * n4 + n1' + 1
      in (year, monthDay (isLeap year) yday))"

text \<open>\<open>Time.abs\<close>: the seconds shown by a wall clock in the time's location.\<close>

definition absSec :: "zone_table \<Rightarrow> Time \<Rightarrow> int" where
  "absSec tz t = unixSec t + fst (lookup tz (loc t) (unixSec t))"

definition date :: "zone_table \<Rightarrow> Time \<Rightarrow> int \<times> int \<times> int" where
  "date tz t = absDate (absSec tz t div 86400 + unixEpochDay)"

definition Year :: "zone_table \<Rightarrow> Time \<Rightarrow> int" where
  "Year tz t = fst (date tz t)"

definition Month :: "zone_table \<Rightarrow> Time \<Rightarrow> int" where
  "Month tz t = fst (snd (date tz t))"

definition Day :: "zone_table \<Rightarrow> Time \<Rightarrow> int" where
  "Day tz t = snd (snd (date tz t))"

text \<open>\<open>Time.Clock\<close> (\<open>absClock\<close>): hour, minute and second within the day.\<close>

definition Clock :: "zone_table \<Rightarrow> Time \<Rightarrow> int \<times> int \<times> int" where
  "Clock tz t =
     (let sec = absSec tz t mod 86400;
          hour = sec div 3600;
          sec1 = sec - hour * 3600;
          minute = sec1 div 60;
          sec2 = sec1 - minute * 60
      in (hour, minute, sec2))"

text \<open>
  \<open>time.Date\<close>: normalises the fields, counts the seconds as if the fields were UTC, and then
  subtracts the zone offset, looked up at the guess and once more if the guess falls outside
  the zone found.
\<close>

definition Date ::
  "zone_table \<Rightarrow> int \<Rightarrow> int \<Rightarrow> int \<Rightarrow> int \<Rightarrow> int \<Rightarrow> int \<Rightarrow> int \<Rightarrow> Location \<Rightarrow> Time" where
  "Date tz year month day hour minute sec nsec0 l =
     (let (year1, m) = norm_go year (month - 1) 12;
          month1 = m + 1;
          (sec1, nsec1) = norm_go sec nsec0 1000000000;
          (min1, sec2) = norm_go minute sec1 60;
          (hour1, min2) = norm_go hour min1 60;
          (day1, hour2) = norm_go day hour1 24;
          d = daysSinceEpoch year1 + daysBefore (month1 - 1)
                + (if isLeap year1 \<and> month1 \<ge> 3 then 1 else 0) + (day1 - 1);
          unix = (d - unixEpochDay) * 86400 + (hour2 * 3600 + min2 * 60 + sec2);
          (offset, start, end) = lookup tz l unix;
          unix1 = (if offset \<noteq> 0
                   then (let utc = unix - offset;
                             offset1 = (if utc < start \<or> utc \<ge> end
                                        then fst (lookup tz l utc) else offset)
                         in unix - offset1)
                   else unix)
      in \<lparr>unixSec = unix1, nsec = nsec1, loc = l\<rparr>)"

definition AddDate :: "zone_table \<Rightarrow> Time \<Rightarrow> int \<Rightarrow> int \<Rightarrow> int \<Rightarrow> Time" where
  "AddDate tz t years months days =
     (let (year, month, day) = date tz t;
          (hour, minute, sec) = Clock tz t
      in Date tz (year + years) (month + months) (day + days) hour minute sec (nsec t) (loc t))"

definition UTC :: "Time \<Rightarrow> Time" where
  "UTC t = t\<lparr>loc := UTCLoc\<rparr>"

text \<open>\<open>Time.Before\<close> on wall-clock readings.\<close>

definition Before :: "Time \<Rightarrow> Time \<Rightarrow> bool" where
  "Before t u = (unixSec t < unixSec u \<or> (unixSec t = unixSec u \<and> nsec t < nsec u))"

section \<open>The world outside the process\<close>

text \<open>
  \<open>float64\<close> is kept abstract: a type \<open>'f\<close> with the operations the program uses. No law of
  arithmetic is assumed of them, so whatever is proved holds of IEEE-754 doubles.
\<close>

record 'f Float64 =
  fzero :: 'f
  fadd :: "'f \<Rightarrow> 'f \<Rightarrow> 'f"
  fsub :: "'f \<Rightarrow> 'f \<Rightarrow> 'f"
  fdiv :: "'f \<Rightarrow> 'f \<Rightarrow> 'f"
  f1000 :: 'f

text \<open>
  The dynamic value of a record (\<open>interface{}\<close>): nil, a \<open>float64\<close>, or a value of one of the
  other types the InfluxDB client delivers. \<open>typeName\<close> is what \<open>%T\<close> prints.
\<close>

datatype 'f Value =
    VNil
  | VFloat64 'f
  | VInt64 int
  | VUint64 nat
  | VString string
  | VBool bool
  | VTime Time
  | VDuration int
  | VBytes "nat list"

fun typeName :: "'f Value \<Rightarrow> string" where
  "typeName VNil = ''<nil>''"
| "typeName (VFloat64 x) = ''float64''"
| "typeName (VInt64 i) = ''int64''"
| "typeName (VUint64 n) = ''uint64''"
| "typeName (VString s) = ''string''"
| "typeName (VBool b) = ''bool''"
| "typeName (VTime t) = ''time.Time''"
| "typeName (VDuration d) = ''time.Duration''"
| "typeName (VBytes bs) = ''[]uint8''"

text \<open>
  \<open>*api.QueryTableResult\<close> as \<open>processQueryResult\<close> sees it: the values of the records that
  \<open>Next()\<close> delivers, in order, and what \<open>Err()\<close> returns after the first \<open>Next()\<close>.
\<close>

record 'f QueryTableResult =
  records :: "'f Value list"
  Err :: "string option"

text \<open>
  The Flux text that \<open>queryMeasurement\<close> formats is determined by four values: the bucket, the
  start of the range (printed in RFC 3339 to the second, so the text denotes the instant by its
  whole seconds), the measurement and the dongle. The query carries these and the organisation
  that \<open>client.QueryAPI\<close> was given.
\<close>

record FluxQuery =
  qOrg :: string
  qBucket :: string
  qStart :: int
  qMeasurement :: string
  qDongle :: string

text \<open>
  The world: the wall clock, the zone table of \<open>time.Local\<close> and the InfluxDB server. Reading
  the clock and running a query are effects on a state \<open>'s\<close> of the world, about which nothing
  is assumed; a failed query returns the message of its error.
\<close>

record ('s, 'f) World =
  Now :: "'s \<Rightarrow> (int \<times> int) \<times> 's"
  Local :: zone_table
  Query :: "FluxQuery \<Rightarrow> 's \<Rightarrow> (string + 'f QueryTableResult) \<times> 's"

definition timeNow :: "('s, 'f) World \<Rightarrow> 's \<Rightarrow> Time \<times> 's" where
  "timeNow w s =
     (let ((sec, ns), s') = Now w s in (\<lparr>unixSec = sec, nsec = ns, loc = LocalLoc\<rparr>, s'))"

section \<open>\<open>main.go\<close>\<close>

record Config =
  InfluxDBURL :: string
  InfluxDBToken :: string
  InfluxDBOrg :: string
  InfluxDBBucket :: string
  ServerPort :: string
  Dongle :: string

record 'f Response =
  Generated :: 'f
  Consumed :: 'f
  Exported :: 'f
  Imported :: 'f
  Discharged :: 'f
  MaxPv :: 'f
  Error :: string

text \<open>A Go \<open>error\<close> made by \<open>fmt.Errorf\<close> is its message.\<close>

type_synonym error = string

definition calculateRangeStart ::
  "('s, 'f) World \<Rightarrow> string \<Rightarrow> 's \<Rightarrow> (error + Time) \<times> 's" where
  "calculateRangeStart w timeframe s =
     (let (now, s') = timeNow w s
      in (if timeframe = ''day'' then
            (let localMidnight =
                   Date (Local w) (Year (Local w) now) (Month (Local w) now) (Day (Local w) now)
                     0 1 0 0 LocalLoc
             in Inr (UTC localMidnight))
          else if timeframe = ''week'' then Inr (UTC (AddDate (Local w) now 0 0 (- 7)))
          else if timeframe = ''month'' then Inr (UTC (AddDate (Local w) now 0 (- 1) 0))
          else Inl (''invalid timeframe: '' @ timeframe),
          s'))"

definition processQueryResult :: "'f Float64 \<Rightarrow> 'f QueryTableResult \<Rightarrow> error + 'f" where
  "processQueryResult F result =
     (case records result of
        [] \<Rightarrow> Inr (fzero F)
      | v # rest \<Rightarrow>
          (case v of
             VNil \<Rightarrow> Inr (fzero F)
           | VFloat64 floatValue \<Rightarrow>
               (case Err result of None \<Rightarrow> Inr floatValue | Some e \<Rightarrow> Inl e)
           | _ \<Rightarrow> Inl (''unexpected value type: '' @ typeName v)))"

text \<open>The query that \<open>queryMeasurement\<close> formats and sends.\<close>

definition fluxQuery :: "Config \<Rightarrow> string \<Rightarrow> Time \<Rightarrow> FluxQuery" where
  "fluxQuery config measurement start =
     \<lparr>qOrg = InfluxDBOrg config, qBucket = InfluxDBBucket config, qStart = unixSec start,
      qMeasurement = measurement, qDongle = Dongle config\<rparr>"

definition queryMeasurement ::
  "'f Float64 \<Rightarrow> ('s, 'f) World \<Rightarrow> Config \<Rightarrow> string \<Rightarrow> Time \<Rightarrow> 's \<Rightarrow> (error + 'f) \<times> 's" where
  "queryMeasurement F w config measurement start s =
     (let query = fluxQuery config measurement start
      in case Query w query s of
           (Inl err, s') \<Rightarrow> (Inl (''query failed for '' @ measurement @ '': '' @ err), s')
         | (Inr result, s') \<Rightarrow> (processQueryResult F result, s'))"

text \<open>The loop of \<open>queryGenerated\<close> over the measurements, with its running total.\<close>

fun queryGenerated_loop ::
  "'f Float64 \<Rightarrow> ('s, 'f) World \<Rightarrow> Config \<Rightarrow> Time \<Rightarrow> string list \<Rightarrow> 'f \<Rightarrow> 's
     \<Rightarrow> (error + 'f) \<times> 's" where
  "queryGenerated_loop F w config start [] total' s = (Inr total', s)"
| "queryGenerated_loop F w config start (measurement # rest) total' s =
     (case queryMeasurement F w config measurement start s of
        (Inl err, s') \<Rightarrow> (Inl err, s')
      | (Inr v, s') \<Rightarrow> queryGenerated_loop F w config start rest (fadd F total' v) s')"

definition queryGenerated ::
  "'f Float64 \<Rightarrow> ('s, 'f) World \<Rightarrow> Config \<Rightarrow> string \<Rightarrow> 's \<Rightarrow> (error + 'f) \<times> 's" where
  "queryGenerated F w config timeframe s =
     (case calculateRangeStart w timeframe s of
        (Inl err, s0) \<Rightarrow> (Inl err, s0)
      | (Inr start, s0) \<Rightarrow>
          queryGenerated_loop F w config start
            [''lux_Epv1_day'', ''lux_Epv2_day'', ''lux_Epv3_day''] (fzero F) s0)"

definition queryConsumed ::
  "'f Float64 \<Rightarrow> ('s, 'f) World \<Rightarrow> Config \<Rightarrow> string \<Rightarrow> 's \<Rightarrow> (error + 'f) \<times> 's" where
  "queryConsumed F w config timeframe s =
     (case calculateRangeStart w timeframe s of
        (Inl err, s0) \<Rightarrow> (Inl err, s0)
      | (Inr start, s0) \<Rightarrow>
     (case queryGenerated F w config timeframe s0 of
        (Inl err, s1) \<Rightarrow> (Inl err, s1)
      | (Inr generated, s1) \<Rightarrow>
     (case queryMeasurement F w config ''lux_Etouser_day'' start s1 of
        (Inl err, s2) \<Rightarrow> (Inl err, s2)
      | (Inr touser, s2) \<Rightarrow>
     (case queryMeasurement F w config ''lux_Edischg_day'' start s2 of
        (Inl err, s3) \<Rightarrow> (Inl err, s3)
      | (Inr dischg, s3) \<Rightarrow>
     (case queryMeasurement F w config ''lux_Etogrid_day'' start s3 of
        (Inl err, s4) \<Rightarrow> (Inl err, s4)
      | (Inr togrid, s4) \<Rightarrow>
     (case queryMeasurement F w config ''lux_Echg_day'' start s4 of
        (Inl err, s5) \<Rightarrow> (Inl err, s5)
      | (Inr chg, s5) \<Rightarrow>
          (Inr (fsub F (fadd F (fadd F generated touser) dischg) (fadd F togrid chg)),
           s5)))))))"

definition queryExported ::
  "'f Float64 \<Rightarrow> ('s, 'f) World \<Rightarrow> Config \<Rightarrow> string \<Rightarrow> 's \<Rightarrow> (error + 'f) \<times> 's" where
  "queryExported F w config timeframe s =
     (case calculateRangeStart w timeframe s of
        (Inl err, s0) \<Rightarrow> (Inl err, s0)
      | (Inr start, s0) \<Rightarrow> queryMeasurement F w config ''lux_Etogrid_day'' start s0)"

definition queryDischarged ::
  "'f Float64 \<Rightarrow> ('s, 'f) World \<Rightarrow> Config \<Rightarrow> string \<Rightarrow> 's \<Rightarrow> (error + 'f) \<times> 's" where
  "queryDischarged F w config timeframe s =
     (case calculateRangeStart w timeframe s of
        (Inl err, s0) \<Rightarrow> (Inl err, s0)
      | (Inr start, s0) \<Rightarrow> queryMeasurement F w config ''lux_Edischg_day'' start s0)"

definition queryImported ::
  "'f Float64 \<Rightarrow> ('s, 'f) World \<Rightarrow> Config \<Rightarrow> string \<Rightarrow> 's \<Rightarrow> (error + 'f) \<times> 's" where
  "queryImported F w config timeframe s =
     (case calculateRangeStart w timeframe s of
        (Inl err, s0) \<Rightarrow> (Inl err, s0)
      | (Inr start, s0) \<Rightarrow> queryMeasurement F w config ''lux_Etouser_day'' start s0)"

definition queryMaxPv ::
  "'f Float64 \<Rightarrow> ('s, 'f) World \<Rightarrow> Config \<Rightarrow> string \<Rightarrow> 's \<Rightarrow> (error + 'f) \<times> 's" where
  "queryMaxPv F w config timeframe s =
     (case calculateRangeStart w timeframe s of
        (Inl err, s0) \<Rightarrow> (Inl err, s0)
      | (Inr start, s0) \<Rightarrow>
     (case queryMeasurement F w config ''lux_Pall'' start s0 of
        (Inl err, s1) \<Rightarrow> (Inl err, s1)
      | (Inr watts, s1) \<Rightarrow> (Inr (fdiv F watts (f1000 F)), s1)))"

text \<open>
  The request as the handler reads it: the method, and \<open>r.URL.Query().Get("timeframe")\<close>, which
  is empty when the parameter is absent. The reply: the status code, the \<open>Content-Type\<close>
  header if the handler (or \<open>http.Error\<close>) set one, and the body, which is either the plain text
  of \<open>http.Error\<close> or the \<open>Response\<close> given to the JSON encoder.
\<close>

record Request =
  Method :: string
  timeframeParam :: string

datatype 'f Body = Plain string | Json "'f Response"

record 'f Reply =
  statusCode :: nat
  contentType :: "string option"
  body :: "'f Body"

text \<open>\<open>Response{Error: err.Error()}\<close> under \<open>WriteHeader(http.StatusInternalServerError)\<close>.\<close>

definition errorReply :: "'f Float64 \<Rightarrow> error \<Rightarrow> 'f Reply" where
  "errorReply F err =
     \<lparr>statusCode = 500, contentType = None,
      body = Json \<lparr>Generated = fzero F, Consumed = fzero F, Exported = fzero F,
                   Imported = fzero F, Discharged = fzero F, MaxPv = fzero F,
                   Error = err\<rparr>\<rparr>"

definition handleSolarShowdown ::
  "'f Float64 \<Rightarrow> ('s, 'f) World \<Rightarrow> Config \<Rightarrow> Request \<Rightarrow> 's \<Rightarrow> 'f Reply \<times> 's" where
  "handleSolarShowdown F w config r s =
     (if Method r \<noteq> ''GET'' then
        (\<lparr>statusCode = 405, contentType = Some ''text/plain; charset=utf-8'',
          body = Plain (''Method not allowed'' @ [CHR 0x0A])\<rparr>, s)
      else
     (let timeframe = (if timeframeParam r = '''' then ''day'' else timeframeParam r)
      in
     (case queryGenerated F w config timeframe s of
        (Inl err, s1) \<Rightarrow> (errorReply F err, s1)
      | (Inr generated, s1) \<Rightarrow>
     (case queryConsumed F w config timeframe s1 of
        (Inl err, s2) \<Rightarrow> (errorReply F err, s2)
      | (Inr consumed, s2) \<Rightarrow>
     (case queryExported F w config timeframe s2 of
        (Inl err, s3) \<Rightarrow> (errorReply F err, s3)
      | (Inr exported, s3) \<Rightarrow>
     (case queryImported F w config timeframe s3 of
        (Inl err, s4) \<Rightarrow> (errorReply F err, s4)
      | (Inr imported, s4) \<Rightarrow>
     (case queryDischarged F w config timeframe s4 of
        (Inl err, s5) \<Rightarrow> (errorReply F err, s5)
      | (Inr discharged, s5) \<Rightarrow>
     (case queryMaxPv F w config timeframe s5 of
        (Inl err, s6) \<Rightarrow> (errorReply F err, s6)
      | (Inr maxPv, s6) \<Rightarrow>
          (\<lparr>statusCode = 200, contentType = Some ''application/json'',
            body = Json \<lparr>Generated = generated, Consumed = consumed, Exported = exported,
                         Imported = imported, Discharged = discharged, MaxPv = maxPv,
                         Error = ''''\<rparr>\<rparr>, s6)))))))))"

section \<open>Notions used to state the properties\<close>






text \<open>The timeframe tokens that \<open>calculateRangeStart\<close> accepts.\<close>

definition validTimeframe :: "string \<Rightarrow> bool" where
  "validTimeframe timeframe \<longleftrightarrow> timeframe \<in> {''day'', ''week'', ''month''}"

text \<open>
  The server answers by the measurement alone: two queries for the same measurement get the
  same answer, whenever they are run and whatever their range.
\<close>

definition answersByMeasurement :: "('s, 'f) World \<Rightarrow> bool" where
  "answersByMeasurement w \<longleftrightarrow>
     (\<forall>q q' s s'. qMeasurement q = qMeasurement q' \<longrightarrow> fst (Query w q s) = fst (Query w q' s'))"







section \<open>Fixtures\<close>

text \<open>
  Exact arithmetic on the reals as one instance of the \<open>float64\<close> operations; the fixtures
  use it only on values for which the IEEE-754 result is exact too.
\<close>

definition exactF :: "real Float64" where
  "exactF = \<lparr>fzero = 0, fadd = (+), fsub = (-), fdiv = (/), f1000 = 1000\<rparr>"

text \<open>A location with one zone, as \<open>time.FixedZone\<close> makes.\<close>

definition fixedZone :: "int \<Rightarrow> zone_table" where
  "fixedZone offset = (\<lambda>sec. (offset, - (2 ^ 63), 2 ^ 63 - 1))"

text \<open>
  A world whose clock stands still at \<open>now\<close> and whose server answers each query by its
  measurement alone; the state counts the queries run so far.
\<close>

definition fixtureWorld ::
  "int \<times> int \<Rightarrow> zone_table \<Rightarrow> (string \<Rightarrow> string + 'f QueryTableResult) \<Rightarrow> (nat, 'f) World" where
  "fixtureWorld now tz answer =
     \<lparr>Now = (\<lambda>s. (now, s)), Local = tz, Query = (\<lambda>q s. (answer (qMeasurement q), Suc s))\<rparr>"

definition floatRow :: "'f \<Rightarrow> string + 'f QueryTableResult" where
  "floatRow x = Inr \<lparr>records = [VFloat64 x], Err = None\<rparr>"

definition testConfig :: Config where
  "testConfig = \<lparr>InfluxDBURL = ''http://localhost:8086'', InfluxDBToken = ''token'',
                  InfluxDBOrg = ''org'', InfluxDBBucket = ''bucket'', ServerPort = ''8080'',
                  Dongle = ''dongle''\<rparr>"

text \<open>
  The fixture of the specification: the three PV strings generate 4, 5 and 1 (10 together),
  2 is imported, 1 discharged, 3 exported, 0.5 charged, and the total power is 2500 W.
\<close>

definition specFixture :: "string \<Rightarrow> string + real QueryTableResult" where
  "specFixture m =
     (if m = ''lux_Epv1_day'' then floatRow 4
      else if m = ''lux_Epv2_day'' then floatRow 5
      else if m = ''lux_Epv3_day'' then floatRow 1
      else if m = ''lux_Etouser_day'' then floatRow 2
      else if m = ''lux_Edischg_day'' then floatRow 1
      else if m = ''lux_Etogrid_day'' then floatRow 3
      else if m = ''lux_Echg_day'' then floatRow (1 / 2)
      else if m = ''lux_Pall'' then floatRow 2500
      else Inl ''unknown measurement'')"

text \<open>
  A clock at 2024-03-15 12:34:56.5 in a zone eight hours west of UTC (20:34:56.5 UTC), and a
  server that answers by \<open>specFixture\<close>.
\<close>

definition specWorld :: "(nat, real) World" where
  "specWorld = fixtureWorld (1710534896, 500000000) (fixedZone (- 28800)) specFixture"


text \<open>A server on which the query for the battery charge fails, and one that answers the
  total power with a string.\<close>

definition failingFixture :: "string \<Rightarrow> string + real QueryTableResult" where
  "failingFixture m = (if m = ''lux_Echg_day'' then Inl ''timeout'' else specFixture m)"

definition failingWorld :: "(nat, real) World" where
  "failingWorld = fixtureWorld (1710534896, 500000000) (fixedZone (- 28800)) failingFixture"

definition stringFixture :: "string \<Rightarrow> string + real QueryTableResult" where
  "stringFixture m =
     (if m = ''lux_Pall'' then Inr \<lparr>records = [VString ''on''], Err = None\<rparr>
      else specFixture m)"

definition stringWorld :: "(nat, real) World" where
  "stringWorld = fixtureWorld (1710534896, 500000000) (fixedZone (- 28800)) stringFixture"




text \<open>
  The zone table of Beirut around the spring of 2024: two hours east of UTC until
  2024-03-30 22:00 UTC, when the clocks go from 00:00 to 01:00, three hours east after that;
  and a clock at 01:00:30 of 2024-03-31 in that zone.
\<close>

definition beirutZone :: zone_table where
  "beirutZone sec =
     (if sec < 1711836000 then (7200, - (2 ^ 63), 1711836000)
      else (10800, 1711836000, 2 ^ 63 - 1))"

definition beirutWorld :: "(nat, real) World" where
  "beirutWorld = fixtureWorld (1711836030, 0) beirutZone specFixture"

section \<open>The calendar arithmetic of \<open>Date\<close> and \<open>absDate\<close>\<close>











































section \<open>Helper facts about the fixtures and the query path\<close>

lemma fixtureWorld_simps:
  "Now (fixtureWorld now tz answer) s = (now, s)"
  "Local (fixtureWorld now tz answer) = tz"
  "Query (fixtureWorld now tz answer) q s = (answer (qMeasurement q), Suc s)"
  by (simp_all add: fixtureWorld_def)


lemma qMeasurement_fluxQuery: "qMeasurement (fluxQuery config measurement start) = measurement"
  by (simp add: fluxQuery_def)

lemma queryMeasurement_fst:
  "fst (queryMeasurement F w config measurement start s) =
     (case fst (Query w (fluxQuery config measurement start) s) of
        Inl err \<Rightarrow> Inl (''query failed for '' @ measurement @ '': '' @ err)
      | Inr result \<Rightarrow> processQueryResult F result)"
  by (simp add: queryMeasurement_def Let_def split: prod.splits sum.splits)


lemma calculateRangeStart_valid:
  "validTimeframe timeframe \<Longrightarrow> \<not> isl (fst (calculateRangeStart w timeframe s))"
  by (auto simp: validTimeframe_def calculateRangeStart_def Let_def split: prod.splits)

lemma answersByMeasurement_fst:
  assumes "answersByMeasurement w"
  shows "fst (queryMeasurement F w config m a s) = fst (queryMeasurement F w config m b s')"
proof -
  have "fst (Query w (fluxQuery config m a) s) = fst (Query w (fluxQuery config m b) s')"
    using assms unfolding answersByMeasurement_def
    by (simp add: qMeasurement_fluxQuery)
  then show ?thesis by (simp add: queryMeasurement_fst)
qed

lemma queryGenerated_sum:
  assumes tf: "validTimeframe timeframe"
    and pv1: "\<And>a s. fst (queryMeasurement F w config ''lux_Epv1_day'' a s) = Inr pv1"
    and pv2: "\<And>a s. fst (queryMeasurement F w config ''lux_Epv2_day'' a s) = Inr pv2"
    and pv3: "\<And>a s. fst (queryMeasurement F w config ''lux_Epv3_day'' a s) = Inr pv3"
  shows "fst (queryGenerated F w config timeframe s)
           = Inr (fadd F (fadd F (fadd F (fzero F) pv1) pv2) pv3)"
  using calculateRangeStart_valid [OF tf]
  by (simp add: queryGenerated_def split_beta sum.case_eq_if pv1 pv2 pv3)






lemma answersByMeasurement_fixtureWorld: "answersByMeasurement (fixtureWorld now tz answer)"
  by (simp add: answersByMeasurement_def fixtureWorld_simps)


section \<open>The handler on a recording world\<close>
















section \<open>Zones with more than one offset\<close>



text \<open>
  Where the clocks skip the first hour of the day, the range start of \<open>day\<close> is 01:01:00 local
  time: at 01:00:30 of that day in Beirut it lies thirty seconds after now.
\<close>

lemma rangeStart_day_after_clock_change:
  "fst (timeNow beirutWorld 0) = \<lparr>unixSec = 1711836030, nsec = 0, loc = LocalLoc\<rparr>
   \<and> fst (calculateRangeStart beirutWorld ''day'' 0)
       = Inr \<lparr>unixSec = 1711836060, nsec = 0, loc = UTCLoc\<rparr>
   \<and> \<not> Before \<lparr>unixSec = 1711836060, nsec = 0, loc = UTCLoc\<rparr>
              \<lparr>unixSec = 1711836030, nsec = 0, loc = LocalLoc\<rparr>"
  by code_simp

section \<open>The claims\<close>

text \<open>
  C1. For every accepted timeframe token and every server that answers by the measurement
  alone, with any values: the consumed quantity is
  \<open>generated + imported + discharged - (exported + charged)\<close>, in this order of operations,
  where \<open>generated\<close> is zero plus the three PV-string results added in turn and
  \<open>charged\<close> is the result for the battery-charge measurement; the other four terms are
  what \<open>queryGenerated\<close>, \<open>queryImported\<close>, \<open>queryDischarged\<close> and \<open>queryExported\<close> return.
  Nothing is cached: the world after \<open>queryConsumed\<close> is the world after reading the clock,
  a full run of \<open>queryGenerated\<close> and four further measurement queries.
\<close>

theorem queryConsumed_formula:
  fixes F :: "'f Float64" and w :: "('s, 'f) World"
  assumes tf: "timeframe \<in> {''day'', ''week'', ''month''}"
    and fx: "answersByMeasurement w"
    and pv1: "fst (queryMeasurement F w config ''lux_Epv1_day'' a1 s1) = Inr pv1"
    and pv2: "fst (queryMeasurement F w config ''lux_Epv2_day'' a2 s2) = Inr pv2"
    and pv3: "fst (queryMeasurement F w config ''lux_Epv3_day'' a3 s3) = Inr pv3"
    and touser: "fst (queryMeasurement F w config ''lux_Etouser_day'' a4 s4) = Inr imported"
    and dischg: "fst (queryMeasurement F w config ''lux_Edischg_day'' a5 s5) = Inr discharged"
    and togrid: "fst (queryMeasurement F w config ''lux_Etogrid_day'' a6 s6) = Inr exported"
    and chg: "fst (queryMeasurement F w config ''lux_Echg_day'' a7 s7) = Inr charged"
  defines "generated \<equiv> fadd F (fadd F (fadd F (fzero F) pv1) pv2) pv3"
  shows "fst (queryConsumed F w config timeframe s)
           = Inr (fsub F (fadd F (fadd F generated imported) discharged) (fadd F exported charged))
       \<and> fst (queryGenerated F w config timeframe s') = Inr generated
       \<and> fst (queryImported F w config timeframe s') = Inr imported
       \<and> fst (queryDischarged F w config timeframe s') = Inr discharged
       \<and> fst (queryExported F w config timeframe s') = Inr exported
       \<and> snd (queryConsumed F w config timeframe s)
           = (let s0 = snd (calculateRangeStart w timeframe s);
                  start = projr (fst (calculateRangeStart w timeframe s));
                  s1 = snd (queryGenerated F w config timeframe s0);
                  s2 = snd (queryMeasurement F w config ''lux_Etouser_day'' start s1);
                  s3 = snd (queryMeasurement F w config ''lux_Edischg_day'' start s2);
                  s4 = snd (queryMeasurement F w config ''lux_Etogrid_day'' start s3)
              in snd (queryMeasurement F w config ''lux_Echg_day'' start s4))"
proof -
  have v: "validTimeframe timeframe" using tf by (simp add: validTimeframe_def)
  have r: "\<And>s. \<not> isl (fst (calculateRangeStart w timeframe s))"
    by (rule calculateRangeStart_valid [OF v])
  have q1: "\<And>a s. fst (queryMeasurement F w config ''lux_Epv1_day'' a s) = Inr pv1"
    using answersByMeasurement_fst [OF fx] pv1 by metis
  have q2: "\<And>a s. fst (queryMeasurement F w config ''lux_Epv2_day'' a s) = Inr pv2"
    using answersByMeasurement_fst [OF fx] pv2 by metis
  have q3: "\<And>a s. fst (queryMeasurement F w config ''lux_Epv3_day'' a s) = Inr pv3"
    using answersByMeasurement_fst [OF fx] pv3 by metis
  have q4: "\<And>a s. fst (queryMeasurement F w config ''lux_Etouser_day'' a s) = Inr imported"
    using answersByMeasurement_fst [OF fx] touser by metis
  have q5: "\<And>a s. fst (queryMeasurement F w config ''lux_Edischg_day'' a s) = Inr discharged"
    using answersByMeasurement_fst [OF fx] dischg by metis
  have q6: "\<And>a s. fst (queryMeasurement F w config ''lux_Etogrid_day'' a s) = Inr exported"
    using answersByMeasurement_fst [OF fx] togrid by metis
  have q7: "\<And>a s. fst (queryMeasurement F w config ''lux_Echg_day'' a s) = Inr charged"
    using answersByMeasurement_fst [OF fx] chg by metis
  have g: "\<And>s. fst (queryGenerated F w config timeframe s) = Inr generated"
    unfolding generated_def by (rule queryGenerated_sum [OF v q1 q2 q3])
  have c: "fst (queryConsumed F w config timeframe s)
           = Inr (fsub F (fadd F (fadd F generated imported) discharged) (fadd F exported charged))"
    by (simp add: queryConsumed_def split_beta sum.case_eq_if r g q4 q5 q6 q7)
  have i: "fst (queryImported F w config timeframe s') = Inr imported"
    by (simp add: queryImported_def split_beta sum.case_eq_if r q4)
  have d: "fst (queryDischarged F w config timeframe s') = Inr discharged"
    by (simp add: queryDischarged_def split_beta sum.case_eq_if r q5)
  have e: "fst (queryExported F w config timeframe s') = Inr exported"
    by (simp add: queryExported_def split_beta sum.case_eq_if r q6)
  have st: "snd (queryConsumed F w config timeframe s)
           = (let s0 = snd (calculateRangeStart w timeframe s);
                  start = projr (fst (calculateRangeStart w timeframe s));
                  s1 = snd (queryGenerated F w config timeframe s0);
                  s2 = snd (queryMeasurement F w config ''lux_Etouser_day'' start s1);
                  s3 = snd (queryMeasurement F w config ''lux_Edischg_day'' start s2);
                  s4 = snd (queryMeasurement F w config ''lux_Etogrid_day'' start s3)
              in snd (queryMeasurement F w config ''lux_Echg_day'' start s4))"
    by (simp add: queryConsumed_def split_beta sum.case_eq_if Let_def r g q4 q5 q6 q7)
  show ?thesis using c g i d e st by simp
qed

theorem queryConsumed_formula_witness:
  "fst (queryConsumed exactF specWorld testConfig ''day'' 0) = Inr (19 / 2)
   \<and> fst (queryGenerated exactF specWorld testConfig ''day'' 0) = Inr 10
   \<and> fst (queryImported exactF specWorld testConfig ''day'' 0) = Inr 2
   \<and> fst (queryDischarged exactF specWorld testConfig ''day'' 0) = Inr 1
   \<and> fst (queryExported exactF specWorld testConfig ''day'' 0) = Inr 3
   \<and> snd (queryGenerated exactF specWorld testConfig ''day'' 0) = 3
   \<and> snd (queryConsumed exactF specWorld testConfig ''day'' 0) = 7"
proof -
  define t0 where "t0 = \<lparr>unixSec = 0, nsec = 0, loc = UTCLoc\<rparr>"
  have fx: "answersByMeasurement specWorld"
    unfolding specWorld_def by (rule answersByMeasurement_fixtureWorld)
  have tf: "''day'' \<in> {''day'', ''week'', ''month''}" by simp
  have p1: "fst (queryMeasurement exactF specWorld testConfig ''lux_Epv1_day'' t0 0) = Inr 4"
    unfolding t0_def by code_simp
  have p2: "fst (queryMeasurement exactF specWorld testConfig ''lux_Epv2_day'' t0 0) = Inr 5"
    unfolding t0_def by code_simp
  have p3: "fst (queryMeasurement exactF specWorld testConfig ''lux_Epv3_day'' t0 0) = Inr 1"
    unfolding t0_def by code_simp
  have p4: "fst (queryMeasurement exactF specWorld testConfig ''lux_Etouser_day'' t0 0) = Inr 2"
    unfolding t0_def by code_simp
  have p5: "fst (queryMeasurement exactF specWorld testConfig ''lux_Edischg_day'' t0 0) = Inr 1"
    unfolding t0_def by code_simp
  have p6: "fst (queryMeasurement exactF specWorld testConfig ''lux_Etogrid_day'' t0 0) = Inr 3"
    unfolding t0_def by code_simp
  have p7: "fst (queryMeasurement exactF specWorld testConfig ''lux_Echg_day'' t0 0)
              = Inr (1 / 2)"
    unfolding t0_def by code_simp
  have n: "snd (queryGenerated exactF specWorld testConfig ''day'' 0) = 3
           \<and> snd (queryConsumed exactF specWorld testConfig ''day'' 0) = 7"
    by code_simp
  show ?thesis
    using queryConsumed_formula [OF tf fx p1 p2 p3 p4 p5 p6 p7, of 0 0] n
    by (simp add: exactF_def)
qed





text \<open>
  C4. For every measurement, if the query succeeds and delivers no record, \<open>queryMeasurement\<close>
  returns exactly zero and no error. (Nothing is assumed of \<open>Err()\<close>: the result is zero even
  when the result set reports an error of its own.)
\<close>

theorem queryMeasurement_no_rows:
  assumes "fst (Query w (fluxQuery config measurement start) s) = Inr result"
    and "records result = []"
  shows "fst (queryMeasurement F w config measurement start s) = Inr (fzero F)"
  using assms by (simp add: queryMeasurement_fst processQueryResult_def)

theorem queryMeasurement_no_rows_witness:
  "fst (queryMeasurement exactF
          (fixtureWorld (0, 0) (fixedZone 0) (\<lambda>m. Inr \<lparr>records = [], Err = None\<rparr>))
          testConfig ''lux_Pall'' \<lparr>unixSec = 0, nsec = 0, loc = UTCLoc\<rparr> 0) = Inr 0"
  using queryMeasurement_no_rows
    [of "fixtureWorld (0, 0) (fixedZone 0) (\<lambda>m. Inr \<lparr>records = [], Err = None\<rparr>)"
        testConfig "''lux_Pall''" "\<lparr>unixSec = 0, nsec = 0, loc = UTCLoc\<rparr>" 0
        "\<lparr>records = [], Err = None\<rparr>" exactF]
  by (simp add: fixtureWorld_simps exactF_def)

text \<open>
  C5, as stated, fails: for the measurement \<open>lux_Pall\<close> answered with a string, the error is
  \<open>unexpected value type: string\<close>, in which the name of the measurement does not occur.
\<close>

theorem unexpected_type_error_lacks_measurement:
  "fst (queryMeasurement exactF stringWorld testConfig ''lux_Pall''
          \<lparr>unixSec = 1710489660, nsec = 0, loc = UTCLoc\<rparr> 0)
     = Inl ''unexpected value type: string''
   \<and> \<not> sublist ''lux_Pall'' ''unexpected value type: string''"
  by code_simp

text \<open>
  C5, amended. For every measurement, if the first record delivered has a value that is
  neither nil nor a \<open>float64\<close> (so every value that is not numeric), \<open>queryMeasurement\<close> fails
  with the error \<open>unexpected value type: <T>\<close>, where \<open><T>\<close> is the dynamic type of the value.
  The error carries the type of the value only.
\<close>

theorem queryMeasurement_unexpected_type:
  assumes "fst (Query w (fluxQuery config measurement start) s) = Inr result"
    and "records result = v # rest"
    and "v \<noteq> VNil" and "\<forall>x. v \<noteq> VFloat64 x"
  shows "fst (queryMeasurement F w config measurement start s)
           = Inl (''unexpected value type: '' @ typeName v)"
  using assms
  by (cases v) (simp_all add: queryMeasurement_fst processQueryResult_def)

theorem queryMeasurement_unexpected_type_witness:
  "fst (queryMeasurement exactF stringWorld testConfig ''lux_Pall''
          \<lparr>unixSec = 1710489660, nsec = 0, loc = UTCLoc\<rparr> 0)
     = Inl ''unexpected value type: string''"
proof -
  have q: "fst (Query stringWorld
                 (fluxQuery testConfig ''lux_Pall''
                    \<lparr>unixSec = 1710489660, nsec = 0, loc = UTCLoc\<rparr>) 0)
             = Inr \<lparr>records = [VString ''on''], Err = None\<rparr>"
    by (simp add: stringWorld_def fixtureWorld_simps qMeasurement_fluxQuery stringFixture_def)
  show ?thesis
    using queryMeasurement_unexpected_type [OF q, of "VString ''on''" "[]" exactF]
    by simp
qed

text \<open>
  C6. For every timeframe token other than \<open>day\<close>, \<open>week\<close> and \<open>month\<close>, the empty string
  included, \<open>calculateRangeStart\<close> fails with the error \<open>invalid timeframe: <token>\<close>; it does
  not replace the empty token by a default.
\<close>

theorem calculateRangeStart_invalid:
  assumes "timeframe \<notin> {''day'', ''week'', ''month''}"
  shows "fst (calculateRangeStart w timeframe s) = Inl (''invalid timeframe: '' @ timeframe)"
  using assms by (simp add: calculateRangeStart_def Let_def split: prod.splits)

theorem calculateRangeStart_invalid_witness:
  "'''' \<notin> {''day'', ''week'', ''month''}
   \<and> fst (calculateRangeStart (fixtureWorld (0, 0) (fixedZone 0) (\<lambda>m. floatRow (0::real))) '''' 0)
       = Inl ''invalid timeframe: ''"
  using calculateRangeStart_invalid
    [of "''''" "fixtureWorld (0, 0) (fixedZone 0) (\<lambda>m. floatRow (0::real))" 0]
  by simp




text \<open>
  C8. For every value \<open>watts\<close> that the query for the total power returns, \<open>queryMaxPv\<close>
  returns \<open>watts / 1000\<close> (the \<open>float64\<close> quotient); with 2500 it returns 2.5.
\<close>

theorem queryMaxPv_kilowatts:
  assumes "calculateRangeStart w timeframe s = (Inr start, s0)"
    and "fst (queryMeasurement F w config ''lux_Pall'' start s0) = Inr watts"
  shows "fst (queryMaxPv F w config timeframe s) = Inr (fdiv F watts (f1000 F))"
  using assms by (simp add: queryMaxPv_def split_beta)

theorem queryMaxPv_kilowatts_witness:
  "fst (queryMaxPv exactF specWorld testConfig ''day'' 0) = Inr (5 / 2)"
proof -
  have r: "calculateRangeStart specWorld ''day'' 0
             = (Inr \<lparr>unixSec = 1710489660, nsec = 0, loc = UTCLoc\<rparr>, 0)"
    by code_simp
  have q: "fst (queryMeasurement exactF specWorld testConfig ''lux_Pall''
                  \<lparr>unixSec = 1710489660, nsec = 0, loc = UTCLoc\<rparr> 0) = Inr 2500"
    by code_simp
  show ?thesis
    using queryMaxPv_kilowatts [OF r q] by (simp add: exactF_def)
qed

text \<open>
  C9. An unrecognised timeframe token is answered with status 500 and the message
  \<open>invalid timeframe: bogus\<close>; a failed query is answered with status 500 as well.
\<close>

theorem invalid_timeframe_status_500:
  "fst (handleSolarShowdown exactF specWorld testConfig
          \<lparr>Method = ''GET'', timeframeParam = ''bogus''\<rparr> 0)
     = \<lparr>statusCode = 500, contentType = None,
        body = Json \<lparr>Generated = 0, Consumed = 0, Exported = 0, Imported = 0, Discharged = 0,
                     MaxPv = 0, Error = ''invalid timeframe: bogus''\<rparr>\<rparr>
   \<and> statusCode (fst (handleSolarShowdown exactF failingWorld testConfig
          \<lparr>Method = ''GET'', timeframeParam = ''day''\<rparr> 0)) = 500"
  by code_simp

text \<open>
  C10. If the first record delivered has a nil value, \<open>queryMeasurement\<close> returns zero and no
  error; nil is not reported as a value of an unexpected type.
\<close>

theorem queryMeasurement_nil_value:
  assumes "fst (Query w (fluxQuery config measurement start) s) = Inr result"
    and "records result = VNil # rest"
  shows "fst (queryMeasurement F w config measurement start s) = Inr (fzero F)"
  using assms by (simp add: queryMeasurement_fst processQueryResult_def)

theorem queryMeasurement_nil_value_witness:
  "fst (queryMeasurement exactF
          (fixtureWorld (0, 0) (fixedZone 0) (\<lambda>m. Inr \<lparr>records = [VNil], Err = None\<rparr>))
          testConfig ''lux_Pall'' \<lparr>unixSec = 0, nsec = 0, loc = UTCLoc\<rparr> 0) = Inr 0"
  using queryMeasurement_nil_value
    [of "fixtureWorld (0, 0) (fixedZone 0) (\<lambda>m. Inr \<lparr>records = [VNil], Err = None\<rparr>)"
        testConfig "''lux_Pall''" "\<lparr>unixSec = 0, nsec = 0, loc = UTCLoc\<rparr>" 0
        "\<lparr>records = [VNil], Err = None\<rparr>" "[]" exactF]
  by (simp add: fixtureWorld_simps exactF_def)

end
